theory Spec2Isabelle
  imports Complex_Main
begin

section \<open>JavaScript strings\<close>

text \<open>
  A JavaScript string is modelled as a \<^typ>\<open>string\<close>: the list of its code units, each
  below 256 (the Latin-1 range).  \<open>length\<close> is the \<open>.length\<close> of the source.  Text with code
  units above 255 is outside this model.
\<close>

definition isSpace :: "char \<Rightarrow> bool" where
  \<comment> \<open>the class \<open>\s\<close> of a JavaScript regular expression, restricted to code units below 256:
      TAB, LF, VT, FF, CR, SPACE and NBSP\<close>
  "isSpace c = (of_char c \<in> {9, 10, 11, 12, 13, 32, 160 :: nat})"

definition toLowerChar :: "char \<Rightarrow> char" where
  \<comment> \<open>\<open>A\<close>..\<open>Z\<close> and the Latin-1 capitals (192..222 without 215) move up by 32\<close>
  "toLowerChar c =
     (let n = (of_char c :: nat)
      in if (65 \<le> n \<and> n \<le> 90) \<or> (192 \<le> n \<and> n \<le> 222 \<and> n \<noteq> 215)
         then char_of (n + 32) else c)"

definition toLowerCase :: "string \<Rightarrow> string" where
  "toLowerCase s = map toLowerChar s"

definition trim :: "string \<Rightarrow> string" where
  "trim s = rev (dropWhile isSpace (rev (dropWhile isSpace s)))"

text \<open>
  \<open>s.split(/(\s+)/)\<close>: the pieces between maximal runs of white space, with the runs
  themselves (the capturing group) in between.  The result always starts and ends with a
  piece, which is empty when the string starts or ends with white space.
\<close>

function splitCapture :: "string \<Rightarrow> string list" where
  "splitCapture s =
     (let w = takeWhile (\<lambda>c. \<not> isSpace c) s;
          r = dropWhile (\<lambda>c. \<not> isSpace c) s
      in if r = [] then [w]
         else w # takeWhile isSpace r # splitCapture (dropWhile isSpace r))"
  by pat_completeness auto
termination
proof (relation "measure length")
  show "wf (measure length)" by simp
next
  fix s :: string and w r
  assume "w = takeWhile (\<lambda>c. \<not> isSpace c) s"
    and r: "r = dropWhile (\<lambda>c. \<not> isSpace c) s" and ne: "r \<noteq> []"
  have "isSpace (hd r)"
    using hd_dropWhile [of "\<lambda>c. \<not> isSpace c" s] ne by (simp add: r)
  with ne have "length (dropWhile isSpace r) < length r"
    by (cases r) (simp_all add: le_imp_less_Suc length_dropWhile_le)
  also have "length r \<le> length s"
    by (simp add: r length_dropWhile_le)
  finally show "(dropWhile isSpace r, s) \<in> measure length" by simp
qed

declare splitCapture.simps [simp del]

text \<open>\<open>s.split(/\s+/)\<close>: the same pieces without the runs.\<close>

function splitSpaces :: "string \<Rightarrow> string list" where
  "splitSpaces s =
     (let w = takeWhile (\<lambda>c. \<not> isSpace c) s;
          r = dropWhile (\<lambda>c. \<not> isSpace c) s
      in if r = [] then [w]
         else w # splitSpaces (dropWhile isSpace r))"
  by pat_completeness auto
termination
proof (relation "measure length")
  show "wf (measure length)" by simp
next
  fix s :: string and w r
  assume "w = takeWhile (\<lambda>c. \<not> isSpace c) s"
    and r: "r = dropWhile (\<lambda>c. \<not> isSpace c) s" and ne: "r \<noteq> []"
  have "isSpace (hd r)"
    using hd_dropWhile [of "\<lambda>c. \<not> isSpace c" s] ne by (simp add: r)
  with ne have "length (dropWhile isSpace r) < length r"
    by (cases r) (simp_all add: le_imp_less_Suc length_dropWhile_le)
  also have "length r \<le> length s"
    by (simp add: r length_dropWhile_le)
  finally show "(dropWhile isSpace r, s) \<in> measure length" by simp
qed

declare splitSpaces.simps [simp del]

text \<open>\<open>s.split(' ')\<close>: the pieces between single space characters.\<close>

fun splitChar :: "char \<Rightarrow> string \<Rightarrow> string \<Rightarrow> string list" where
  \<comment> \<open>the second argument is the piece read so far, reversed\<close>
  "splitChar d acc [] = [rev acc]"
| "splitChar d acc (c # cs) =
     (if c = d then rev acc # splitChar d [] cs else splitChar d (c # acc) cs)"

definition splitOnSpace :: "string \<Rightarrow> string list" where
  "splitOnSpace s = splitChar CHR '' '' [] s"

section \<open>Text diff engine\<close>

subsection \<open>\<open>AdvancedHuggingFaceGrammarService.findTextChanges\<close>\<close>

record change =
  chOriginal :: string
  chCorrected :: string
  chPosition :: nat
  chConfidence :: rat

text \<open>
  The \<open>while\<close> loop walks both token lists in lockstep (\<open>i\<close> and \<open>j\<close> always advance
  together) and stops at the end of the shorter one; \<open>position\<close> accumulates the lengths of
  the original tokens passed.
\<close>

fun findLoop :: "string list \<Rightarrow> string list \<Rightarrow> nat \<Rightarrow> change list" where
  "findLoop (ow # ows) (cw # cws) pos =
     (if ow \<noteq> cw
      then \<lparr>chOriginal = ow, chCorrected = cw, chPosition = pos, chConfidence = 8 / 10\<rparr>
             # findLoop ows cws (pos + length ow)
      else findLoop ows cws (pos + length ow))"
| "findLoop _ _ pos = []"

definition findTextChanges :: "string \<Rightarrow> string \<Rightarrow> change list" where
  "findTextChanges orig corr = findLoop (splitCapture orig) (splitCapture corr) 0"

subsection \<open>\<open>UniversalGrammarService.analyzeCorrections\<close>\<close>

record edit =
  original :: string
  correction :: string
  category :: string
  message :: string
  confidence :: int
  position :: "nat option"

text \<open>
  The message of the source holds an arrow (U+2192), a code unit above 255; it is written
  \<open>->\<close> here.
\<close>

definition improved :: "string \<Rightarrow> string \<Rightarrow> string" where
  "improved ow cw = ''Improved: \"'' @ ow @ ''\" -> \"'' @ cw @ ''\"''"

text \<open>
  The \<open>for\<close> loop over \<open>i < Math.min(originalWords.length, correctedWords.length)\<close>:
  an edit is pushed where the tokens differ and both are non-empty after trimming, with the
  token index \<open>i\<close> as its \<open>position\<close>.
\<close>

fun analyzeLoop :: "string list \<Rightarrow> string list \<Rightarrow> nat \<Rightarrow> edit list" where
  "analyzeLoop (ow # ows) (cw # cws) i =
     (if ow \<noteq> cw \<and> trim ow \<noteq> [] \<and> trim cw \<noteq> []
      then \<lparr>original = ow, correction = cw, category = ''Grammar'',
             message = improved ow cw, confidence = 75, position = Some i\<rparr>
             # analyzeLoop ows cws (Suc i)
      else analyzeLoop ows cws (Suc i))"
| "analyzeLoop _ _ i = []"

definition addedWords :: edit where
  "addedWords = \<lparr>original = ''missing words'', correction = ''added words'',
     category = ''Grammar'', message = ''Added necessary words for clarity'',
     confidence = 70, position = None\<rparr>"

definition removedWords :: edit where
  "removedWords = \<lparr>original = ''extra words'', correction = ''removed words'',
     category = ''Style'', message = ''Removed unnecessary words'',
     confidence = 70, position = None\<rparr>"

definition analyzeCorrections :: "string \<Rightarrow> string \<Rightarrow> edit list" where
  "analyzeCorrections orig corr =
     (let originalWords = splitCapture (toLowerCase orig);
          correctedWords = splitCapture (toLowerCase corr)
      in analyzeLoop originalWords correctedWords 0
         @ (if length correctedWords > length originalWords then [addedWords]
            else if length correctedWords < length originalWords then [removedWords]
            else []))"

section \<open>Scores\<close>

text \<open>
  JavaScript numbers are modelled as exact rationals; the rounding error of double
  arithmetic is outside the model.  \<open>Math.round\<close> rounds half up.  Where the source can
  compute \<open>NaN\<close> the model returns \<open>None\<close>.
\<close>

definition mathRound :: "rat \<Rightarrow> int" where
  "mathRound x = \<lfloor>x + 1 / 2\<rfloor>"

text \<open>
  \<open>calculateSimilarity\<close> is the same in \<open>AdvancedHuggingFaceGrammarService\<close> and in
  \<open>UniversalGrammarService\<close>.  \<open>intersection\<close> is an array (it keeps repeated words),
  \<open>union\<close> is a \<open>Set\<close>; \<open>split\<close> never returns an empty array, so the size of the
  union is at least one.
\<close>

definition calculateSimilarity :: "string \<Rightarrow> string \<Rightarrow> rat" where
  "calculateSimilarity text1 text2 =
     (let words1 = splitSpaces (toLowerCase text1);
          words2 = splitSpaces (toLowerCase text2);
          intersection = filter (\<lambda>word. word \<in> set words2) words1;
          union = remdups (words1 @ words2)
      in of_nat (length intersection) / of_nat (length union))"

subsection \<open>\<open>AdvancedHuggingFaceGrammarService.calculateQualityScore\<close>\<close>


subsection \<open>\<open>UniversalGrammarService.calculateQualityScore\<close>\<close>

text \<open>
  With an empty original and a different corrected text the quotient is \<open>Infinity\<close>, the
  rounded value \<open>-Infinity\<close>, and \<open>Math.max(60, _)\<close> makes it 60.
\<close>

definition calculateQualityScoreU :: "string \<Rightarrow> string \<Rightarrow> int" where
  "calculateQualityScoreU orig corr =
     (if orig = corr then 100
      else if orig = [] then 60
      else
        let lengthDiff = \<bar>of_nat (length corr) - of_nat (length orig)\<bar>;
            similarity = calculateSimilarity orig corr
        in max 60 (min 100
             (mathRound (85 - (lengthDiff / of_nat (length orig)) * 10 + similarity * 15))))"

subsection \<open>The quality score as the specification words it\<close>




subsection \<open>\<open>UniversalGrammarService.buildResult\<close>\<close>

text \<open>
  The result object, flattened: \<open>analysis\<close> and \<open>statistics\<close> hold the same
  \<open>confidenceScore\<close>; \<open>totalErrors\<close> and \<open>correctedErrors\<close> are both the number of
  corrections.  The fields that read the clock (\<open>timestamp\<close>, \<open>processingTime\<close>) and
  \<open>linguisticCoverage\<close> are left out.
\<close>

record result =
  originalText :: string
  correctedText :: string
  corrections :: "edit list"
  errorCategories :: "string list"
  confidenceScore :: int
  qualityScore :: int
  totalErrors :: nat
  originalLength :: nat
  correctedLength :: nat
  serviceUsed :: string
  models :: "string list"

definition uniqueInOrder :: "'a list \<Rightarrow> 'a list" where
  \<comment> \<open>\<open>[...new Set(xs)]\<close>: the first occurrence of every element, in order\<close>
  "uniqueInOrder xs = rev (remdups (rev xs))"

definition meanConfidence :: "edit list \<Rightarrow> int" where
  \<comment> \<open>\<open>corrections.length > 0 ? Math.round(corrections.reduce(...) / corrections.length) : 100\<close>\<close>
  "meanConfidence cs =
     (if length cs > 0
      then mathRound (of_int (sum_list (map confidence cs)) / of_nat (length cs))
      else 100)"

definition buildResult :: "string \<Rightarrow> string \<Rightarrow> edit list \<Rightarrow> string \<Rightarrow> result" where
  "buildResult orig corr cs service =
     \<lparr>originalText = orig,
      correctedText = corr,
      corrections = cs,
      errorCategories = uniqueInOrder (map category cs),
      confidenceScore = meanConfidence cs,
      qualityScore = calculateQualityScoreU orig corr,
      totalErrors = length cs,
      originalLength = length orig,
      correctedLength = length corr,
      serviceUsed = service,
      models = [service]\<rparr>"

section \<open>The hosted-model upstream\<close>

text \<open>
  One HTTP exchange with the inference API, as \<open>axios.post\<close> shows it to the caller: a
  2xx answer with its \<open>data\<close> (an array of items, each with an optional
  \<open>generated_text\<close>; \<open>data\<close> that is no array behaves like the empty array), a rejected
  promise with the HTTP status of a non-2xx answer, or a rejected promise without a response
  (time-out, refused connection), with the error code and the message of axios.

  The upstream as a whole is the sequence of its answers: \<open>up n\<close> answers the \<open>n\<close>-th
  request of the process.  Every function that talks to the upstream takes the number of
  requests made so far and returns it updated.
\<close>

datatype reply = Ok "string option list" | HttpError nat | NetworkError string string

type_synonym upstream = "nat \<Rightarrow> reply"

definition always :: "reply \<Rightarrow> upstream" where
  \<comment> \<open>the upstream that gives the same answer to every request\<close>
  "always r = (\<lambda>n. r)"

definition answers :: "reply list \<Rightarrow> reply \<Rightarrow> upstream" where
  \<comment> \<open>the upstream that gives the listed answers first and the last argument from then on\<close>
  "answers rs r = (\<lambda>n. if n < length rs then rs ! n else r)"

text \<open>
  A thrown value: a plain \<open>Error\<close> with its message, or the error of axios with its
  message, its \<open>code\<close> and the status of its \<open>response\<close>.
\<close>

datatype jserror = Error string | AxiosError string "string option" "nat option"

fun errMessage :: "jserror \<Rightarrow> string" where
  "errMessage (Error m) = m"
| "errMessage (AxiosError m c s) = m"



function showNat :: "nat \<Rightarrow> string" where
  \<comment> \<open>the decimal digits of a number\<close>
  "showNat n = (if n < 10 then [char_of (48 + n)] else showNat (n div 10) @ [char_of (48 + n mod 10)])"
  by pat_completeness auto
termination
  by (relation "measure id") auto

declare showNat.simps [simp del]

definition axiosError :: "reply \<Rightarrow> jserror" where
  \<comment> \<open>the value a rejected request throws; a 2xx answer throws nothing\<close>
  "axiosError r =
     (case r of
        HttpError k \<Rightarrow>
          AxiosError (''Request failed with status code '' @ showNat k)
            (Some (if 400 \<le> k \<and> k < 500 then ''ERR_BAD_REQUEST'' else ''ERR_BAD_RESPONSE''))
            (Some k)
      | NetworkError c m \<Rightarrow> AxiosError m (Some c) None
      | Ok d \<Rightarrow> Error [])"

section \<open>String methods\<close>

definition startsWith :: "string \<Rightarrow> string \<Rightarrow> bool" where
  "startsWith s p = (take (length p) s = p)"

definition endsWith :: "string \<Rightarrow> string \<Rightarrow> bool" where
  "endsWith s p = (length p \<le> length s \<and> drop (length s - length p) s = p)"

fun includesStr :: "string \<Rightarrow> string \<Rightarrow> bool" where
  \<comment> \<open>\<open>s.includes(p)\<close>\<close>
  "includesStr [] p = (p = [])"
| "includesStr (c # cs) p = (startsWith (c # cs) p \<or> includesStr cs p)"

fun replaceFirst :: "string \<Rightarrow> string \<Rightarrow> string \<Rightarrow> string" where
  \<comment> \<open>\<open>s.replace(p, r)\<close> with a string pattern: the first occurrence only\<close>
  "replaceFirst [] p r = (if p = [] then r else [])"
| "replaceFirst (c # cs) p r =
     (if startsWith (c # cs) p then r @ drop (length p) (c # cs)
      else c # replaceFirst cs p r)"

definition substring :: "string \<Rightarrow> nat \<Rightarrow> nat \<Rightarrow> string" where
  \<comment> \<open>\<open>s.substring(a, b)\<close>: both indices are clamped to the length and swapped when
      \<open>a > b\<close>\<close>
  "substring s a b =
     (let a' = min a (length s); b' = min b (length s)
      in take (max a' b' - min a' b') (drop (min a' b') s))"

fun collapseLoop :: "bool \<Rightarrow> string \<Rightarrow> string" where
  \<comment> \<open>the flag says that the character before was a line feed\<close>
  "collapseLoop inRun [] = []"
| "collapseLoop inRun (c # cs) =
     (if c = CHR 0x0A
      then (if inRun then collapseLoop True cs else CHR '' '' # collapseLoop True cs)
      else c # collapseLoop False cs)"

definition collapseNewlines :: "string \<Rightarrow> string" where
  \<comment> \<open>\<open>s.replace(/\n+/g, ' ')\<close>: every run of line feeds becomes one space\<close>
  "collapseNewlines s = collapseLoop False s"

section \<open>\<open>UniversalGrammarService\<close>\<close>

subsection \<open>\<open>queryModel\<close>\<close>

text \<open>
  On status 503 the source waits 15 seconds and posts once more; whatever goes wrong with
  the second request is reported as \<open>Model still loading after retry\<close>.  Any other
  failure of the first request is thrown at once.
\<close>

definition queryModelU :: "upstream \<Rightarrow> nat \<Rightarrow> (jserror + string option list) \<times> nat" where
  "queryModelU up n =
     (case up n of
        Ok d \<Rightarrow> (Inr d, n + 1)
      | HttpError k \<Rightarrow>
          if k = 503 then
            (case up (n + 1) of
               Ok d \<Rightarrow> (Inr d, n + 2)
             | _ \<Rightarrow> (Inl (Error ''Model still loading after retry''), n + 2))
          else if k = 429 then (Inl (Error ''Rate limit exceeded''), n + 1)
          else if k = 401 then (Inl (Error ''Invalid API key''), n + 1)
          else (Inl (axiosError (up n)), n + 1)
      | NetworkError c m \<Rightarrow> (Inl (axiosError (up n)), n + 1))"

subsection \<open>Prompts and the extraction of the corrected text\<close>

definition modelsU :: "string list" where
  "modelsU = [''grammarly/coedit-large'', ''microsoft/DialoGPT-large'',
     ''google/flan-t5-large'', ''facebook/bart-large'', ''t5-base'']"

definition prompts :: "string \<Rightarrow> string list" where
  "prompts text =
     [''Please fix all grammar, spelling, and punctuation errors in this text. Return only the corrected version:''
        @ [CHR 0x0A, CHR 0x0A] @ ''\"'' @ text @ ''\"'' @ [CHR 0x0A, CHR 0x0A] @ ''Corrected text:'',
      ''As a grammar expert, correct this text and fix any errors:'' @ [CHR 0x0A]
        @ ''Text: '' @ text @ [CHR 0x0A] @ ''Corrected:'',
      ''Input: '' @ text @ [CHR 0x0A] @ ''Task: Fix grammar and spelling errors'' @ [CHR 0x0A]
        @ ''Output:'',
      ''Correct all errors in: \"'' @ text @ ''\"'' @ [CHR 0x0A] @ ''Fixed version:'',
      ''Please proofread and correct this text for grammar, spelling, and clarity:''
        @ [CHR 0x0A, CHR 0x0A] @ ''\"'' @ text @ ''\"'' @ [CHR 0x0A, CHR 0x0A]
        @ ''Professional version:'']"

definition prefixesU :: "string list" where
  "prefixesU = [''Corrected text:'', ''Professional version:'', ''Fixed version:'', ''Output:'',
     ''Corrected:'', ''Fixed:'', ''Result:'', ''Answer:'', ''Here is the corrected text:'',
     ''The corrected version is:'', ''Corrected sentence:'']"

definition stripLine :: "string \<Rightarrow> string \<Rightarrow> string" where
  \<comment> \<open>one round of the loop over the lines of the prompt; the step is applied with
      \<open>foldl\<close>, so the text read so far comes first\<close>
  "stripLine corrected line =
     (if trim line \<noteq> [] \<and> includesStr corrected (trim line)
      then trim (replaceFirst corrected (trim line) [])
      else corrected)"

definition stripPrefix :: "string \<Rightarrow> string \<Rightarrow> string" where
  "stripPrefix corrected prefix =
     (if startsWith (toLowerCase corrected) (toLowerCase prefix)
      then trim (drop (length prefix) corrected)
      else corrected)"

definition stripQuotes :: "string \<Rightarrow> string" where
  \<comment> \<open>\<open>corrected.slice(1, -1)\<close> when the whole text is wrapped in quotes\<close>
  "stripQuotes corrected =
     (if (startsWith corrected ''\"'' \<and> endsWith corrected ''\"'')
         \<or> (startsWith corrected [CHR 0x27] \<and> endsWith corrected [CHR 0x27])
      then butlast (tl corrected)
      else corrected)"

definition extractCorrectedTextU :: "string \<Rightarrow> string \<Rightarrow> string" where
  "extractCorrectedTextU response originalPrompt =
     (if response = [] then []
      else
        let corrected = trim response;
            corrected = foldl stripLine corrected (splitChar (CHR 0x0A) [] originalPrompt);
            corrected = foldl stripPrefix corrected prefixesU;
            corrected = stripQuotes corrected
        in trim (collapseNewlines corrected))"

subsection \<open>\<open>isValidCorrection\<close>\<close>

definition isValidCorrection :: "string \<Rightarrow> string \<Rightarrow> bool" where
  "isValidCorrection orig corr =
     (if corr = [] then False
      else if length corr < 3 then False
      else if corr = orig then False
      else if includesStr corr orig \<and> length corr > length orig * 2 then False
      else if (if length corr \<ge> length orig then length corr - length orig
               else length orig - length corr) > length orig then False
      else True)"

subsection \<open>\<open>tryMultipleAIApproaches\<close>\<close>

text \<open>
  The two nested loops, over the models and over the five prompts, as one loop over the
  pairs in the order of the source.  An attempt that throws, that returns no item, no
  generated text, a candidate \<open>isValidCorrection\<close> rejects, or a candidate without a
  difference goes on to the next pair.
\<close>

fun tryLoop :: "upstream \<Rightarrow> string \<Rightarrow> (string \<times> string) list \<Rightarrow> nat \<Rightarrow> result \<times> nat" where
  "tryLoop up text [] n = (buildResult text text [] ''AI Analysis (No errors found)'', n)"
| "tryLoop up text ((model, prompt) # rest) n =
     (case queryModelU up n of
        (Inl e, n') \<Rightarrow> tryLoop up text rest n'
      | (Inr response, n') \<Rightarrow>
          (case response of
             [] \<Rightarrow> tryLoop up text rest n'
           | item # items \<Rightarrow>
               (case item of
                  None \<Rightarrow> tryLoop up text rest n'
                | Some generatedText \<Rightarrow>
                    if generatedText = [] then tryLoop up text rest n'
                    else
                      let corrected = extractCorrectedTextU generatedText prompt
                      in if isValidCorrection text corrected
                         then
                           (let cs = analyzeCorrections text corrected
                            in if length cs > 0
                               then (buildResult text corrected cs
                                       (''Hugging Face AI ('' @ model @ '')''), n')
                               else tryLoop up text rest n')
                         else tryLoop up text rest n')))"

definition tryMultipleAIApproaches :: "upstream \<Rightarrow> string \<Rightarrow> nat \<Rightarrow> result \<times> nat" where
  "tryMultipleAIApproaches up text n =
     tryLoop up text (List.product modelsU (prompts text)) n"

subsection \<open>\<open>useIntelligentPatterns\<close> and \<open>correctText\<close>\<close>

text \<open>
  \<open>useIntelligentPatterns\<close> runs eight passes of regular-expression rewriting over the
  text and collects a correction for each rule that fired; it reads nothing but the text
  and cannot throw.  The passes are a parameter here: a function from the text to the
  rewritten text and the corrections collected.  The result is built by \<open>buildResult\<close>,
  as in the source.
\<close>

type_synonym patternPass = "string \<Rightarrow> string \<times> edit list"

definition useIntelligentPatterns :: "patternPass \<Rightarrow> string \<Rightarrow> result" where
  "useIntelligentPatterns passes text =
     (case passes text of
        (corrected, cs) \<Rightarrow> buildResult text corrected cs ''Intelligent Pattern Analysis'')"

text \<open>
  \<open>correctText\<close>: the three checks throw; inside the \<open>try\<close> nothing can throw
  (\<open>tryMultipleAIApproaches\<close> catches every failure of an attempt), so the \<open>catch\<close>
  branch has no counterpart here.
\<close>

definition correctTextU :: "patternPass \<Rightarrow> upstream \<Rightarrow> string \<Rightarrow> nat \<Rightarrow> (jserror + result) \<times> nat" where
  "correctTextU passes up text n =
     (if text = [] then (Inl (Error ''Invalid text input''), n)
      else if length (trim text) = 0 then (Inl (Error ''Text cannot be empty''), n)
      else if length text > 15000
        then (Inl (Error ''Text too long. Maximum 15,000 characters.''), n)
      else
        case tryMultipleAIApproaches up text n of
          (aiResult, n') \<Rightarrow>
            if length (corrections aiResult) = 0
            then
              (let patternResult = useIntelligentPatterns passes text
               in if length (corrections patternResult) > 0
                  then (Inr patternResult, n')
                  else (Inr aiResult, n'))
            else (Inr aiResult, n'))"

section \<open>\<open>AdvancedHuggingFaceGrammarService\<close>\<close>

subsection \<open>\<open>queryModel\<close>\<close>

text \<open>
  On status 503 the source waits 10 seconds and calls itself again, with no bound on the
  number of calls; every other failure is thrown as \<open>Model query failed: ...\<close>.  The call
  need not return, so the function is partial: \<open>None\<close> is a call that never returns.
\<close>

partial_function (option) queryModel ::
  "upstream \<Rightarrow> nat \<Rightarrow> ((jserror + string option list) \<times> nat) option" where
  "queryModel up n =
     (case up n of
        Ok d \<Rightarrow> Some (Inr d, n + 1)
      | HttpError k \<Rightarrow>
          if k = 503 then queryModel up (n + 1)
          else Some (Inl (Error (''Model query failed: '' @ errMessage (axiosError (up n)))), n + 1)
      | NetworkError c m \<Rightarrow>
          Some (Inl (Error (''Model query failed: '' @ errMessage (axiosError (up n)))), n + 1))"

declare queryModel.simps [code]

subsection \<open>Sequencing\<close>

text \<open>
  A computation that talks to the upstream takes the number of requests made so far and
  either never returns (\<open>None\<close>), or throws or returns a value, with the updated number.
\<close>

type_synonym 'a io = "nat \<Rightarrow> ((jserror + 'a) \<times> nat) option"

definition returnIO :: "'a \<Rightarrow> 'a io" where
  "returnIO x = (\<lambda>n. Some (Inr x, n))"

definition throwIO :: "jserror \<Rightarrow> 'a io" where
  "throwIO e = (\<lambda>n. Some (Inl e, n))"

definition bindIO :: "'a io \<Rightarrow> ('a \<Rightarrow> 'b io) \<Rightarrow> 'b io" where
  "bindIO m f =
     (\<lambda>n. case m n of
            None \<Rightarrow> None
          | Some (Inl e, n') \<Rightarrow> Some (Inl e, n')
          | Some (Inr x, n') \<Rightarrow> f x n')"

definition catchIO :: "'a io \<Rightarrow> (jserror \<Rightarrow> 'a io) \<Rightarrow> 'a io" where
  \<comment> \<open>\<open>try { m } catch (e) { h }\<close>\<close>
  "catchIO m h =
     (\<lambda>n. case m n of
            None \<Rightarrow> None
          | Some (Inl e, n') \<Rightarrow> h e n'
          | Some (Inr x, n') \<Rightarrow> Some (Inr x, n'))"

text \<open>
  A computation returns when, from every number of requests, it throws or returns a value,
  and the number of requests does not decrease.  An upstream is live when it does not
  answer with status 503 for ever: after every request there is one that gets another
  answer.
\<close>

definition returns :: "'a io \<Rightarrow> bool" where
  "returns m = (\<forall>n. \<exists>r n'. m n = Some (r, n') \<and> n \<le> n')"

definition live :: "upstream \<Rightarrow> bool" where
  "live up = (\<forall>n. \<exists>d. up (n + d) \<noteq> HttpError 503)"


subsection \<open>\<open>extractCorrectedText\<close> and \<open>scoreCorrection\<close>\<close>

definition prefixesA :: "string list" where
  "prefixesA = [''Corrected text:'', ''Corrected:'', ''Fixed text:'', ''Result:'', ''Output:'',
     ''Answer:'']"

definition extractCorrectedText :: "string option \<Rightarrow> string" where
  \<comment> \<open>the argument is \<open>undefined\<close> when the item has no generated text\<close>
  "extractCorrectedText generatedText =
     (case generatedText of
        None \<Rightarrow> []
      | Some g \<Rightarrow>
          if g = [] then []
          else trim (stripQuotes (foldl stripPrefix (trim g) prefixesA)))"

text \<open>
  \<open>scoreCorrection\<close> divides by the length of the original: with both texts empty the
  length penalty is \<open>NaN\<close> and so is the score; with only the original empty it is
  \<open>Infinity\<close> and the length score is 0.
\<close>

definition scoreCorrection :: "string \<Rightarrow> string \<Rightarrow> rat option" where
  "scoreCorrection orig corr =
     (if orig = [] \<and> corr = [] then None
      else
        let similarity = calculateSimilarity orig corr;
            lengthScore =
              (if orig = [] then 0
               else max 0 (1 - \<bar>of_nat (length corr) - of_nat (length orig)\<bar>
                                 / of_nat (length orig)));
            wordCountRatio =
              of_nat (length (splitOnSpace corr)) / of_nat (length (splitOnSpace orig));
            wordScore = max 0 (min 1 wordCountRatio * min 1 (1 / wordCountRatio))
        in Some (similarity * (5 / 10) + lengthScore * (3 / 10) + wordScore * (2 / 10)))"

subsection \<open>\<open>performComprehensiveCorrection\<close>\<close>

datatype attempt =
  ModelAttempt string string "rat option"
| Specialized string "string option" string

record comprehensive =
  bestResult :: string
  bestScore :: rat
  modelsUsed :: "string list"
  attempts :: "attempt list"

definition textCorrectionModels :: "string list" where
  "textCorrectionModels = [''t5-large'', ''google/flan-t5-xl'', ''microsoft/DialoGPT-large'']"

text \<open>
  One round of the loop \<open>for (i = 0; i < grammarPrompts.length && i < 2; i++)\<close>.  A score
  that is \<open>NaN\<close> is not greater than the best score.
\<close>

definition tryModel :: "upstream \<Rightarrow> string \<Rightarrow> comprehensive \<Rightarrow> nat \<Rightarrow> comprehensive io" where
  "tryModel up text st i =
     (let modelName = textCorrectionModels ! (i mod length textCorrectionModels)
      in catchIO
           (bindIO (queryModel up) (\<lambda>result.
              case result of
                [] \<Rightarrow> returnIO st
              | item # items \<Rightarrow>
                  let candidate = extractCorrectedText item;
                      score = scoreCorrection text candidate;
                      best = (case score of
                                None \<Rightarrow> (bestResult st, bestScore st)
                              | Some s \<Rightarrow>
                                  if s > bestScore st then (candidate, s)
                                  else (bestResult st, bestScore st))
                  in returnIO
                       \<lparr>bestResult = fst best,
                        bestScore = snd best,
                        modelsUsed = modelsUsed st @ [modelName],
                        attempts = attempts st @ [ModelAttempt modelName candidate score]\<rparr>))
           (\<lambda>error. returnIO st))"

text \<open>
  \<open>performSpecializedCorrections\<close>: three queries inside one \<open>try\<close>; the first that
  throws ends the function, which returns what it collected so far (nothing, the first
  entry, or the first two).
\<close>

definition specializedQuery :: "upstream \<Rightarrow> string \<Rightarrow> string \<Rightarrow> attempt list \<Rightarrow> attempt list io" where
  "specializedQuery up kind cat acc =
     bindIO (queryModel up) (\<lambda>result.
       case result of
         [] \<Rightarrow> returnIO acc
       | item # items \<Rightarrow> returnIO (acc @ [Specialized kind item cat]))"

definition performSpecializedCorrections :: "upstream \<Rightarrow> attempt list io" where
  "performSpecializedCorrections up =
     catchIO
       (bindIO (specializedQuery up ''tense_correction'' ''Verb Tenses'' []) (\<lambda>acc1.
          catchIO
            (bindIO (specializedQuery up ''pronoun_correction'' ''Pronouns'' acc1) (\<lambda>acc2.
               catchIO (specializedQuery up ''article_correction'' ''Articles'' acc2)
                 (\<lambda>error. returnIO acc2)))
            (\<lambda>error. returnIO acc1)))
       (\<lambda>error. returnIO [])"

definition performComprehensiveCorrection :: "upstream \<Rightarrow> string \<Rightarrow> comprehensive io" where
  "performComprehensiveCorrection up text =
     (let st0 = \<lparr>bestResult = text, bestScore = 0, modelsUsed = [], attempts = []\<rparr>
      in bindIO (tryModel up text st0 0) (\<lambda>st1.
         bindIO (tryModel up text st1 1) (\<lambda>st2.
         bindIO (performSpecializedCorrections up) (\<lambda>specializedCorrections.
           returnIO (st2\<lparr>attempts := attempts st2 @ specializedCorrections\<rparr>)))))"

subsection \<open>\<open>classifyErrors\<close>\<close>









subsection \<open>\<open>calculateConfidence\<close>\<close>





subsection \<open>\<open>generateExplanations\<close>\<close>




subsection \<open>\<open>formatCorrections\<close>, \<open>fallbackCorrection\<close> and \<open>correctText\<close>\<close>

record fedit = edit +
  severity :: "string option"
  ruleId :: "string option"



record aresult =
  aOriginalText :: string
  aCorrectedText :: string
  aCorrections :: "fedit list"
  aErrorCategories :: "string list"
  aConfidenceScore :: "int option"
  aQualityScore :: "int option"
  aTotalErrors :: nat
  aCorrectedErrors :: nat
  aOriginalLength :: nat
  aCorrectedLength :: nat
  aServiceUsed :: string
  aModels :: "string list"






section \<open>The request boundary\<close>

subsection \<open>\<open>errorHandler\<close>\<close>

datatype response = Success aresult bool | Failure nat string

fun status :: "response \<Rightarrow> nat" where
  "status (Success r hasChanges) = 200"
| "status (Failure code label) = code"


subsection \<open>\<open>ProductionGrammarController.correctText\<close>\<close>



text \<open>
  The handler of \<open>POST /api/correct\<close>.  \<open>maxLength\<close> is
  \<open>parseInt(process.env.MAX_TEXT_LENGTH || '15000')\<close>; the service is the hosted-model
  service above.  The result is the response and the number of upstream requests made;
  \<open>None\<close> is a request that is never answered.
\<close>

definition defaultMaxLength :: nat where
  "defaultMaxLength = 15000"


section \<open>\<open>SmartFreeGrammarService\<close>\<close>

subsection \<open>Results and upstream answers\<close>

record sfCorrection =
  sfOriginal :: string
  sfReplacement :: string
  sfMessage :: string
  sfCategory :: string
  sfRuleId :: "string option"

record sfResult =
  sfOriginalText :: string
  sfCorrectedText :: string
  sfCorrections :: "sfCorrection list"
  sfLanguageName :: string
  sfLanguageCode :: string
  sfTotalMatches :: nat
  sfAppliedCorrections :: nat
  sfOriginalLength :: nat
  sfCorrectedLength :: nat
  sfProcessingTime :: nat
  sfServiceUsed :: "string option"



record languageToolMatch =
  ltOffset :: nat
  ltLength :: nat
  ltReplacements :: "string list"
  ltMessage :: string
  ltRuleId :: string
  ltCategoryName :: string

record languageToolResponse =
  ltMatches :: "languageToolMatch list"
  ltLanguageName :: string
  ltLanguageCode :: string

definition orElse :: "string \<Rightarrow> string \<Rightarrow> string" where
  \<comment> \<open>\<open>a || b\<close> on strings\<close>
  "orElse a b = (if a = [] then b else a)"

definition splice :: "string \<Rightarrow> nat \<Rightarrow> nat \<Rightarrow> string \<Rightarrow> string" where
  \<comment> \<open>\<open>s.substring(0, from) + replacement + s.substring(to)\<close>\<close>
  "splice s from to replacement = substring s 0 from @ replacement @ drop to s"

subsection \<open>\<open>processSaplingResponse\<close>\<close>





subsection \<open>\<open>processTextGearsResponse\<close>\<close>


definition bestOf :: "string list \<Rightarrow> string" where
  \<comment> \<open>\<open>better[0] || ''\<close>\<close>
  "bestOf xs = (case xs of [] \<Rightarrow> [] | x # _ \<Rightarrow> x)"




subsection \<open>\<open>processLanguageToolResponse\<close>\<close>

definition sortLanguageTool :: "languageToolMatch list \<Rightarrow> languageToolMatch list" where
  "sortLanguageTool matches =
     sort_key (\<lambda>m. - int (ltOffset m)) (filter (\<lambda>m. length (ltReplacements m) > 0) matches)"

definition languageToolCorrection :: "string \<Rightarrow> languageToolMatch \<Rightarrow> sfCorrection" where
  "languageToolCorrection orig m =
     \<lparr>sfOriginal = substring orig (ltOffset m) (ltOffset m + ltLength m),
      sfReplacement = bestOf (ltReplacements m),
      sfMessage = orElse (ltMessage m) ''Grammar/Spelling error'',
      sfCategory = orElse (ltCategoryName m) ''Grammar'',
      sfRuleId = Some (orElse (ltRuleId m) ''unknown'')\<rparr>"

definition applyLanguageTool :: "string \<Rightarrow> string \<times> sfCorrection list \<Rightarrow> languageToolMatch \<Rightarrow> string \<times> sfCorrection list" where
  "applyLanguageTool orig st m =
     (case st of (cur, appliedCorrections) \<Rightarrow>
        let bestReplacement = bestOf (ltReplacements m)
        in if bestReplacement \<noteq> []
           then (splice cur (ltOffset m) (ltOffset m + ltLength m) bestReplacement,
                 appliedCorrections @ [languageToolCorrection orig m])
           else (cur, appliedCorrections))"

definition processLanguageToolResponse :: "string \<Rightarrow> languageToolResponse \<Rightarrow> sfResult" where
  "processLanguageToolResponse orig response =
     (case foldl (\<lambda>st m. applyLanguageTool orig st m) (orig, [])
             (sortLanguageTool (ltMatches response)) of
        (cur, appliedCorrections) \<Rightarrow>
          \<lparr>sfOriginalText = orig,
           sfCorrectedText = cur,
           sfCorrections = rev appliedCorrections,
           sfLanguageName = orElse (ltLanguageName response) ''English'',
           sfLanguageCode = orElse (ltLanguageCode response) ''en'',
           sfTotalMatches = length (ltMatches response),
           sfAppliedCorrections = length appliedCorrections,
           sfOriginalLength = length orig,
           sfCorrectedLength = length cur,
           sfProcessingTime = 300,
           sfServiceUsed = None\<rparr>)"

subsection \<open>\<open>useBasicCorrection\<close>\<close>












subsection \<open>The services and \<open>correctText\<close>\<close>




datatype service = SaplingAI | TextGears | LanguageToolFree | BasicCorrection










section \<open>Properties of the string helpers and of the diff engine\<close>





lemma takeWhile_Nil_iff: "takeWhile P s = [] \<longleftrightarrow> s = [] \<or> \<not> P (hd s)"
  by (cases s) auto

lemma concat_splitCapture: "concat (splitCapture s) = s"
proof (induction s rule: splitCapture.induct)
  case (1 s)
  show ?case
  proof (cases "dropWhile (\<lambda>c. \<not> isSpace c) s = []")
    case True
    have "takeWhile (\<lambda>c. \<not> isSpace c) s @ dropWhile (\<lambda>c. \<not> isSpace c) s = s"
      by simp
    with True have "takeWhile (\<lambda>c. \<not> isSpace c) s = s" by simp
    with True show ?thesis
      by (subst splitCapture.simps) (simp add: Let_def)
  next
    case False
    with 1 have "concat (splitCapture (dropWhile isSpace (dropWhile (\<lambda>c. \<not> isSpace c) s)))
       = dropWhile isSpace (dropWhile (\<lambda>c. \<not> isSpace c) s)" by simp
    with False show ?thesis
      by (subst splitCapture.simps) (simp add: Let_def)
  qed
qed

lemma findLoop_span:
  "ch \<in> set (findLoop xs ys pos) \<Longrightarrow>
     \<exists>pre post. xs = pre @ chOriginal ch # post \<and> chPosition ch = pos + length (concat pre)"
proof (induction xs ys pos rule: findLoop.induct)
  case (1 ow ows cw cws pos)
  show ?case
  proof (cases "ch \<in> set (findLoop ows cws (pos + length ow))")
    case True
    with 1 obtain pre post where "ows = pre @ chOriginal ch # post"
      "chPosition ch = pos + length ow + length (concat pre)" by (auto split: if_splits)
    then have "ow # ows = (ow # pre) @ chOriginal ch # post \<and> chPosition ch = pos + length (concat (ow # pre))"
      by simp
    then show ?thesis by blast
  next
    case False
    with 1 have "ch = \<lparr>chOriginal = ow, chCorrected = cw, chPosition = pos, chConfidence = 8 / 10\<rparr>"
      by (auto split: if_splits)
    then have "ow # ows = [] @ chOriginal ch # ows \<and> chPosition ch = pos + length (concat ([]::string list))"
      by simp
    then show ?thesis by blast
  qed
qed simp_all

lemma findTextChanges_span:
  assumes "ch \<in> set (findTextChanges orig corr)"
  shows "chPosition ch + length (chOriginal ch) \<le> length orig"
    and "take (length (chOriginal ch)) (drop (chPosition ch) orig) = chOriginal ch"
proof -
  from assms obtain pre post where
    sp: "splitCapture orig = pre @ chOriginal ch # post" and
    pos: "chPosition ch = length (concat pre)"
    unfolding findTextChanges_def using findLoop_span by fastforce
  have "orig = concat (splitCapture orig)" by (simp add: concat_splitCapture)
  then have o: "orig = concat pre @ chOriginal ch @ concat post" by (simp add: sp)
  show "chPosition ch + length (chOriginal ch) \<le> length orig"
    by (subst o) (simp add: pos)
  show "take (length (chOriginal ch)) (drop (chPosition ch) orig) = chOriginal ch"
    by (subst o) (simp add: pos)
qed












section \<open>The warm-up retry\<close>

lemma queryModel_Some_not503:
  "queryModel up n = Some y \<Longrightarrow> \<exists>k. up k \<noteq> HttpError 503"
proof (induction arbitrary: y rule: queryModel.raw_induct[where P = "\<lambda>up n y. \<exists>k. up k \<noteq> HttpError 503", rotated 1, consumes 1])
  case (1 queryModel' up n y)
  show ?case
  proof (cases "up n = HttpError 503")
    case True
    with 1(2) have "queryModel' up (n + 1) = Some y" by simp
    with 1(1) show ?thesis by (cases y) blast
  next
    case False
    then show ?thesis by blast
  qed
qed

lemma queryModel_returns:
  "up (n + d) \<noteq> HttpError 503 \<Longrightarrow> \<exists>r n'. queryModel up n = Some (r, n') \<and> n < n'"
proof (induction d arbitrary: n)
  case 0
  then show ?case
    by (subst queryModel.simps) (auto split: reply.splits)
next
  case (Suc d)
  show ?case
  proof (cases "up n = HttpError 503")
    case True
    from Suc.prems have "up (Suc n + d) \<noteq> HttpError 503" by simp
    from Suc.IH [OF this] obtain r n' where "queryModel up (Suc n) = Some (r, n')" "Suc n < n'"
      by blast
    with True show ?thesis
      by (subst queryModel.simps) auto
  next
    case False
    then show ?thesis
      by (subst queryModel.simps) (auto split: reply.splits)
  qed
qed

lemma queryModelU_bounded: "n < snd (queryModelU up n) \<and> snd (queryModelU up n) \<le> n + 2"
  by (auto simp: queryModelU_def split: reply.splits)

lemma queryModel_always_503: "queryModel (always (HttpError 503)) n = None"
proof (cases "queryModel (always (HttpError 503)) n")
  case None
  then show ?thesis .
next
  case (Some y)
  from queryModel_Some_not503 [OF this] show ?thesis by (simp add: always_def)
qed

text \<open>
  C8.  Against an upstream that answers every request with status 503,
  \<open>UniversalGrammarService.queryModel\<close> posts twice and gives up with
  \<open>Model still loading after retry\<close>, as the claim says; the \<open>queryModel\<close> of
  \<open>AdvancedHuggingFaceGrammarService\<close> calls itself after every 503 and never returns.
\<close>

theorem warming_up_retry_unbounded:
  "queryModelU (always (HttpError 503)) n
     = (Inl (Error ''Model still loading after retry''), n + 2) \<and>
   queryModel (always (HttpError 503)) n = None"
proof
  show "queryModelU (always (HttpError 503)) n
     = (Inl (Error ''Model still loading after retry''), n + 2)"
    by (simp add: queryModelU_def always_def)
  show "queryModel (always (HttpError 503)) n = None"
    by (rule queryModel_always_503)
qed

section \<open>The structured-edit adapters\<close>



lemma foldl_applyLanguageTool:
  "snd (foldl (\<lambda>st m. applyLanguageTool orig st m) (cur, acc) es)
     = acc @ map (languageToolCorrection orig) (filter (\<lambda>m. bestOf (ltReplacements m) \<noteq> []) es)"
  by (induction es arbitrary: cur acc) (simp_all add: applyLanguageTool_def Let_def)



lemma sfCorrections_LanguageTool:
  "sfCorrections (processLanguageToolResponse orig response)
     = rev (map (languageToolCorrection orig)
              (filter (\<lambda>m. bestOf (ltReplacements m) \<noteq> []) (sortLanguageTool (ltMatches response))))"
  by (simp add: processLanguageToolResponse_def case_prod_beta foldl_applyLanguageTool)





section \<open>The quality score\<close>






section \<open>The confidence score\<close>











section \<open>An answer that leaves the text unchanged\<close>

lemma isValidCorrection_same: "\<not> isValidCorrection t t"
  by (simp add: isValidCorrection_def)

lemma tryLoop_unchanged:
  assumes up: "\<forall>k. \<exists>items. up k = Ok (Some t # items)"
    and ne: "t \<noteq> []"
  shows "list_all (\<lambda>a. extractCorrectedTextU t (snd a) = t) atts \<Longrightarrow>
         tryLoop up t atts n = (buildResult t t [] ''AI Analysis (No errors found)'', n + length atts)"
proof (induction atts arbitrary: n)
  case Nil
  then show ?case by simp
next
  case (Cons a rest)
  obtain model prompt where a: "a = (model, prompt)" by (cases a)
  from up obtain items where "up n = Ok (Some t # items)" by blast
  then have q: "queryModelU up n = (Inr (Some t # items), n + 1)"
    by (simp add: queryModelU_def)
  from Cons.prems have ex: "extractCorrectedTextU t prompt = t" and rest: "list_all (\<lambda>a. extractCorrectedTextU t (snd a) = t) rest"
    by (simp_all add: a)
  from Cons.IH [OF rest, of "n + 1"] show ?case
    by (simp add: a q ne ex isValidCorrection_same)
qed

lemma list_all_product:
  "list_all (\<lambda>p. P p) ys \<Longrightarrow> list_all (\<lambda>a. P (snd a)) (List.product xs ys)"
  by (induction xs) (auto simp: list_all_iff)

lemma extract_unchanged:
  assumes "t \<noteq> []" and "trim t = t"
    and "foldl stripLine t (splitChar (CHR 0x0A) [] p) = t"
    and "foldl stripPrefix t prefixesU = t"
    and "stripQuotes t = t" and "collapseNewlines t = t"
  shows "extractCorrectedTextU t p = t"
  using assms by (simp add: extractCorrectedTextU_def Let_def)

lemma prompts_nth:
  "prompts t = [prompts t ! 0, prompts t ! 1, prompts t ! 2, prompts t ! 3, prompts t ! 4]"
  by (simp add: prompts_def)

lemma extract_dont:
  "list_all (\<lambda>p. extractCorrectedTextU ''He dont know'' p = ''He dont know'')
     (prompts ''He dont know'')"
proof -
  have ne: "''He dont know'' \<noteq> []" by simp
  have tr: "trim ''He dont know'' = ''He dont know''" by code_simp
  have pf: "foldl stripPrefix ''He dont know'' prefixesU = ''He dont know''" by code_simp
  have sq: "stripQuotes ''He dont know'' = ''He dont know''" by code_simp
  have cn: "collapseNewlines ''He dont know'' = ''He dont know''" by code_simp
  have l0: "foldl stripLine ''He dont know''
      (splitChar (CHR 0x0A) [] (prompts ''He dont know'' ! 0)) = ''He dont know''" by code_simp
  have l1: "foldl stripLine ''He dont know''
      (splitChar (CHR 0x0A) [] (prompts ''He dont know'' ! 1)) = ''He dont know''" by code_simp
  have l2: "foldl stripLine ''He dont know''
      (splitChar (CHR 0x0A) [] (prompts ''He dont know'' ! 2)) = ''He dont know''" by code_simp
  have l3: "foldl stripLine ''He dont know''
      (splitChar (CHR 0x0A) [] (prompts ''He dont know'' ! 3)) = ''He dont know''" by code_simp
  have l4: "foldl stripLine ''He dont know''
      (splitChar (CHR 0x0A) [] (prompts ''He dont know'' ! 4)) = ''He dont know''" by code_simp
  note e = extract_unchanged [OF ne tr _ pf sq cn]
  show ?thesis
    by (subst prompts_nth) (simp add: e [OF l0] e [OF l1] e [OF l2] e [OF l3] e [OF l4] del: One_nat_def)
qed

lemma extract_doesnt:
  "extractCorrectedTextU ''He doesnt know'' (prompts ''He dont know'' ! 1) = ''He doesnt know''"
proof -
  have ne: "''He doesnt know'' \<noteq> []" by simp
  have tr: "trim ''He doesnt know'' = ''He doesnt know''" by code_simp
  have pf: "foldl stripPrefix ''He doesnt know'' prefixesU = ''He doesnt know''" by code_simp
  have sq: "stripQuotes ''He doesnt know'' = ''He doesnt know''" by code_simp
  have cn: "collapseNewlines ''He doesnt know'' = ''He doesnt know''" by code_simp
  have l1: "foldl stripLine ''He doesnt know''
      (splitChar (CHR 0x0A) [] (prompts ''He dont know'' ! 1)) = ''He doesnt know''" by code_simp
  show ?thesis
    by (rule extract_unchanged [OF ne tr l1 pf sq cn])
qed

text \<open>
  C3 (as amended).  An answer whose extracted text equals the input is rejected by
  \<open>isValidCorrection\<close>, and the orchestrator goes on to the next prompt and model.  When
  every one of the 25 attempts is answered with the input text, unchanged by the
  extraction, \<open>tryMultipleAIApproaches\<close> ends after 25 requests with a result without
  edits (confidence score 100), and \<open>correctText\<close> then runs the pattern pass: it
  returns the result of the pattern pass when that has a correction, and the result
  without edits otherwise.
\<close>

theorem unchanged_answer_rejected:
  assumes "t \<noteq> []" and "trim t \<noteq> []" and "length t \<le> 15000"
    and "\<forall>k. \<exists>items. up k = Ok (Some t # items)"
    and "list_all (\<lambda>p. extractCorrectedTextU t p = t) (prompts t)"
  shows "\<not> isValidCorrection t t \<and>
         tryMultipleAIApproaches up t n
           = (buildResult t t [] ''AI Analysis (No errors found)'', n + 25) \<and>
         correctTextU passes up t n
           = (Inr (if length (corrections (useIntelligentPatterns passes t)) > 0
                   then useIntelligentPatterns passes t
                   else buildResult t t [] ''AI Analysis (No errors found)''), n + 25) \<and>
         corrections (buildResult t t [] ''AI Analysis (No errors found)'') = [] \<and>
         confidenceScore (buildResult t t [] ''AI Analysis (No errors found)'') = 100"
proof -
  have "length modelsU = 5" by (simp add: modelsU_def)
  moreover have "length (prompts t) = 5" by (simp add: prompts_def)
  ultimately have len: "length modelsU * length (prompts t) = 25" by simp
  from assms(5) have "list_all (\<lambda>a. extractCorrectedTextU t (snd a) = t)
      (List.product modelsU (prompts t))"
    by (rule list_all_product)
  from tryLoop_unchanged [OF assms(4) assms(1) this, of n]
  have tr: "tryMultipleAIApproaches up t n
           = (buildResult t t [] ''AI Analysis (No errors found)'', n + 25)"
    by (simp add: tryMultipleAIApproaches_def len)
  have cs: "corrections (buildResult t t [] ''AI Analysis (No errors found)'') = []"
    by (simp add: buildResult_def)
  have cf: "confidenceScore (buildResult t t [] ''AI Analysis (No errors found)'') = 100"
    by (simp add: buildResult_def meanConfidence_def)
  from assms(1-3) have "correctTextU passes up t n
           = (Inr (if length (corrections (useIntelligentPatterns passes t)) > 0
                   then useIntelligentPatterns passes t
                   else buildResult t t [] ''AI Analysis (No errors found)''), n + 25)"
    by (simp add: correctTextU_def tr cs Let_def)
  with tr cs cf isValidCorrection_same show ?thesis by simp
qed

theorem unchanged_answer_rejected_witness:
  "''He dont know'' \<noteq> [] \<and> trim ''He dont know'' \<noteq> [] \<and>
   length ''He dont know'' \<le> 15000 \<and>
   always (Ok [Some ''He dont know'']) 7 = Ok [Some ''He dont know''] \<and>
   list_all (\<lambda>p. extractCorrectedTextU ''He dont know'' p = ''He dont know'')
     (prompts ''He dont know'') \<and>
   tryMultipleAIApproaches (always (Ok [Some ''He dont know''])) ''He dont know'' 0
     = (buildResult ''He dont know'' ''He dont know'' [] ''AI Analysis (No errors found)'', 25) \<and>
   correctTextU (\<lambda>t. (t, [])) (always (Ok [Some ''He dont know''])) ''He dont know'' 0
     = (Inr (buildResult ''He dont know'' ''He dont know'' [] ''AI Analysis (No errors found)''), 25) \<and>
   correctTextU (\<lambda>t. (t @ ''.'', [removedWords])) (always (Ok [Some ''He dont know'']))
       ''He dont know'' 0
     = (Inr (buildResult ''He dont know'' ''He dont know.'' [removedWords]
               ''Intelligent Pattern Analysis''), 25)"
proof -
  have ne: "''He dont know'' \<noteq> []" by simp
  have tr: "trim ''He dont know'' \<noteq> []" by code_simp
  have len: "length ''He dont know'' \<le> 15000" by simp
  have up: "\<forall>k. \<exists>items. always (Ok [Some ''He dont know'']) k = Ok (Some ''He dont know'' # items)"
    by (simp add: always_def)
  have up7: "always (Ok [Some ''He dont know'']) 7 = Ok [Some ''He dont know'']"
    by (simp add: always_def)
  note th = unchanged_answer_rejected [OF ne tr len up extract_dont, of 0]
  have p0: "useIntelligentPatterns (\<lambda>t. (t, [])) ''He dont know''
      = buildResult ''He dont know'' ''He dont know'' [] ''Intelligent Pattern Analysis''"
    by (simp add: useIntelligentPatterns_def)
  have p1: "useIntelligentPatterns (\<lambda>t. (t @ ''.'', [removedWords])) ''He dont know''
      = buildResult ''He dont know'' ''He dont know.'' [removedWords] ''Intelligent Pattern Analysis''"
    by (simp add: useIntelligentPatterns_def)
  have c0: "corrections (buildResult ''He dont know'' ''He dont know'' [] ''Intelligent Pattern Analysis'') = []"
    by (simp add: buildResult_def)
  have c1: "corrections (buildResult ''He dont know'' ''He dont know.'' [removedWords]
      ''Intelligent Pattern Analysis'') = [removedWords]"
    by (simp add: buildResult_def)
  from th [of "\<lambda>t. (t, [])"] th [of "\<lambda>t. (t @ ''.'', [removedWords])"]
  show ?thesis
    by (simp only: ne tr len up7 extract_dont p0 p1 c0 c1 list.size simp_thms if_True if_False
          not_False_eq_True less_irrefl zero_less_Suc Nat.add_0_right add_0)
qed

text \<open>
  C3 as stated fails: when the first request is answered with the input \<open>He dont know\<close>
  itself, the orchestrator does not stop; it sends the second request, and the result is
  built from the answer to that one, with one edit.
\<close>

theorem unchanged_answer_counterexample:
  "answers [Ok [Some ''He dont know''], Ok [Some ''He doesnt know'']] (HttpError 500) 0
     = Ok [Some ''He dont know''] \<and>
   extractCorrectedTextU ''He dont know'' (prompts ''He dont know'' ! 0) = ''He dont know'' \<and>
   tryMultipleAIApproaches
       (answers [Ok [Some ''He dont know''], Ok [Some ''He doesnt know'']] (HttpError 500))
       ''He dont know'' 0
     = (buildResult ''He dont know'' ''He doesnt know''
          [\<lparr>original = ''dont'', correction = ''doesnt'', category = ''Grammar'',
             message = improved ''dont'' ''doesnt'', confidence = 75, position = Some 2\<rparr>]
          ''Hugging Face AI (grammarly/coedit-large)'', 2)"
proof (intro conjI)
  let ?up = "answers [Ok [Some ''He dont know''], Ok [Some ''He doesnt know'']] (HttpError 500)"
  show "?up 0 = Ok [Some ''He dont know'']"
    by (simp add: answers_def)
  from extract_dont show e0: "extractCorrectedTextU ''He dont know'' (prompts ''He dont know'' ! 0) = ''He dont know''"
    by (subst (asm) prompts_nth) simp
  have q0: "queryModelU ?up 0 = (Inr [Some ''He dont know''], 1)"
    by (simp add: queryModelU_def answers_def)
  have q1: "queryModelU ?up (Suc 0) = (Inr [Some ''He doesnt know''], 2)"
    by (simp add: queryModelU_def answers_def)
  have e1: "extractCorrectedTextU ''He doesnt know'' (prompts ''He dont know'' ! Suc 0)
      = ''He doesnt know''"
    using extract_doesnt by simp
  have v: "isValidCorrection ''He dont know'' ''He doesnt know''" by code_simp
  have a: "analyzeCorrections ''He dont know'' ''He doesnt know''
     = [\<lparr>original = ''dont'', correction = ''doesnt'', category = ''Grammar'',
             message = improved ''dont'' ''doesnt'', confidence = 75, position = Some 2\<rparr>]"
    by code_simp
  have pr: "List.product modelsU (prompts ''He dont know'')
     = (''grammarly/coedit-large'', prompts ''He dont know'' ! 0)
       # (''grammarly/coedit-large'', prompts ''He dont know'' ! 1)
       # drop 2 (List.product modelsU (prompts ''He dont know''))"
    by (subst prompts_nth, subst (3) prompts_nth) (simp add: modelsU_def)
  show "tryMultipleAIApproaches ?up ''He dont know'' 0
     = (buildResult ''He dont know'' ''He doesnt know''
          [\<lparr>original = ''dont'', correction = ''doesnt'', category = ''Grammar'',
             message = improved ''dont'' ''doesnt'', confidence = 75, position = Some 2\<rparr>]
          ''Hugging Face AI (grammarly/coedit-large)'', 2)"
    unfolding tryMultipleAIApproaches_def
    by (subst pr) (simp add: q0 q1 e0 e1 isValidCorrection_same v a Let_def)
qed

section \<open>Offsets of the edits\<close>

lemma set_sortLanguageTool: "set (sortLanguageTool ms) \<subseteq> set ms"
  by (auto simp: sortLanguageTool_def)

text \<open>
  C6 (as amended).  Every edit of \<open>findTextChanges\<close> records a character offset into the
  original text: the offset plus the length of the recorded span stays within the original
  text, and the span is the substring of the original text at that offset.  A correction of
  \<open>processLanguageToolResponse\<close> carries no offset; its span is the substring of the
  original text between the offset and the offset plus length of a match of the upstream,
  cut at the end of the text.
\<close>

theorem findTextChanges_offsets:
  "(\<forall>ch \<in> set (findTextChanges orig corr).
      chPosition ch + length (chOriginal ch) \<le> length orig \<and>
      take (length (chOriginal ch)) (drop (chPosition ch) orig) = chOriginal ch) \<and>
   (\<forall>c \<in> set (sfCorrections (processLanguageToolResponse orig response)).
      \<exists>m \<in> set (ltMatches response).
        sfOriginal c = substring orig (ltOffset m) (ltOffset m + ltLength m))"
proof
  show "\<forall>ch \<in> set (findTextChanges orig corr).
      chPosition ch + length (chOriginal ch) \<le> length orig \<and>
      take (length (chOriginal ch)) (drop (chPosition ch) orig) = chOriginal ch"
    using findTextChanges_span by blast
  show "\<forall>c \<in> set (sfCorrections (processLanguageToolResponse orig response)).
      \<exists>m \<in> set (ltMatches response).
        sfOriginal c = substring orig (ltOffset m) (ltOffset m + ltLength m)"
    using set_sortLanguageTool [of "ltMatches response"]
    by (auto simp: sfCorrections_LanguageTool languageToolCorrection_def)
qed

theorem findTextChanges_offsets_witness:
  "findTextChanges ''He dont know'' ''He doesnt know''
     = [\<lparr>chOriginal = ''dont'', chCorrected = ''doesnt'', chPosition = 3, chConfidence = 8 / 10\<rparr>] \<and>
   3 + length ''dont'' \<le> length ''He dont know'' \<and>
   take (length ''dont'') (drop 3 ''He dont know'') = ''dont'' \<and>
   map sfOriginal (sfCorrections (processLanguageToolResponse ''He dont know''
       \<lparr>ltMatches = [\<lparr>ltOffset = 3, ltLength = 4, ltReplacements = [''does not''],
           ltMessage = [], ltRuleId = [], ltCategoryName = []\<rparr>],
         ltLanguageName = [], ltLanguageCode = []\<rparr>))
     = [''dont''] \<and>
   substring ''He dont know'' 3 (3 + 4) = ''dont''"
proof -
  let ?m = "\<lparr>ltOffset = 3, ltLength = 4, ltReplacements = [''does not''],
           ltMessage = [], ltRuleId = [], ltCategoryName = []\<rparr>"
  let ?r = "\<lparr>ltMatches = [?m], ltLanguageName = [], ltLanguageCode = []\<rparr>"
  have v: "findTextChanges ''He dont know'' ''He doesnt know''
     = [\<lparr>chOriginal = ''dont'', chCorrected = ''doesnt'', chPosition = 3, chConfidence = 8 / 10\<rparr>]"
    by code_simp
  have c: "map sfOriginal (sfCorrections (processLanguageToolResponse ''He dont know'' ?r))
     = [''dont'']"
    by code_simp
  have s: "substring ''He dont know'' 3 (3 + 4) = ''dont''"
    by code_simp
  from findTextChanges_offsets [of "''He dont know''" "''He doesnt know''" ?r] v c s
  show ?thesis
    by simp
qed

text \<open>
  C6 as stated fails for \<open>analyzeCorrections\<close>: the recorded position is the index of the
  token, not a character offset.  For \<open>aaaa bbbb\<close> against \<open>aaaa cccc\<close> the edit of
  \<open>bbbb\<close> has position 2, where the original text reads \<open>aa b\<close>.
\<close>

theorem token_index_counterexample:
  "map (\<lambda>e. (position e, original e)) (analyzeCorrections ''aaaa bbbb'' ''aaaa cccc'')
     = [(Some 2, ''bbbb'')] \<and>
   take (length ''bbbb'') (drop 2 ''aaaa bbbb'') = ''aa b''"
  by code_simp

section \<open>The request boundary and the orchestrators\<close>

lemma returns_returnIO: "returns (returnIO x)"
  by (simp add: returns_def returnIO_def)

lemma returns_throwIO: "returns (throwIO e)"
  by (simp add: returns_def throwIO_def)

lemma returns_bindIO:
  assumes "returns m" and "\<And>x. returns (f x)"
  shows "returns (bindIO m f)"
proof (unfold returns_def, intro allI)
  fix n
  from assms(1) obtain r n1 where m: "m n = Some (r, n1)" "n \<le> n1"
    unfolding returns_def by blast
  show "\<exists>r' n'. bindIO m f n = Some (r', n') \<and> n \<le> n'"
  proof (cases r)
    case (Inl e)
    with m show ?thesis by (simp add: bindIO_def)
  next
    case (Inr x)
    from assms(2) [of x] obtain r2 n2 where "f x n1 = Some (r2, n2)" "n1 \<le> n2"
      unfolding returns_def by blast
    with m Inr show ?thesis by (simp add: bindIO_def)
  qed
qed

lemma returns_catchIO:
  assumes "returns m" and "\<And>e. returns (h e)"
  shows "returns (catchIO m h)"
proof (unfold returns_def, intro allI)
  fix n
  from assms(1) obtain r n1 where m: "m n = Some (r, n1)" "n \<le> n1"
    unfolding returns_def by blast
  show "\<exists>r' n'. catchIO m h n = Some (r', n') \<and> n \<le> n'"
  proof (cases r)
    case (Inr x)
    with m show ?thesis by (simp add: catchIO_def)
  next
    case (Inl e)
    from assms(2) [of e] obtain r2 n2 where "h e n1 = Some (r2, n2)" "n1 \<le> n2"
      unfolding returns_def by blast
    with m Inl show ?thesis by (simp add: catchIO_def)
  qed
qed

lemma returns_queryModel: "live up \<Longrightarrow> returns (queryModel up)"
  unfolding returns_def live_def
  using queryModel_returns by (metis less_imp_le_nat)

lemma returns_list_case:
  "returns a \<Longrightarrow> (\<And>y ys. returns (b y ys)) \<Longrightarrow> returns (case xs of [] \<Rightarrow> a | y # ys \<Rightarrow> b y ys)"
  by (cases xs) simp_all

lemma returns_option_case:
  "returns a \<Longrightarrow> (\<And>y. returns (b y)) \<Longrightarrow> returns (case x of None \<Rightarrow> a | Some y \<Rightarrow> b y)"
  by (cases x) simp_all

lemmas returns_intros = returns_bindIO returns_catchIO returns_returnIO returns_throwIO
  returns_queryModel returns_list_case returns_option_case

lemma returns_tryModel: "live up \<Longrightarrow> returns (tryModel up t st i)"
  by (simp add: tryModel_def Let_def returns_intros)

lemma returns_performSpecializedCorrections: "live up \<Longrightarrow> returns (performSpecializedCorrections up)"
  by (simp add: performSpecializedCorrections_def specializedQuery_def returns_intros)

lemma returns_performComprehensiveCorrection:
  "live up \<Longrightarrow> returns (performComprehensiveCorrection up t)"
  by (simp add: performComprehensiveCorrection_def Let_def returns_intros returns_tryModel
        returns_performSpecializedCorrections)































end
